theory Spec2Isabelle
  imports Main
begin

section \<open>nctl: cluster authentication (auth/cluster.go) and kubeconfig loading rules (api)\<close>

text \<open>
  The development embeds three functions of package \<open>auth\<close> (\<open>clusterName\<close>,
  \<open>ContextName\<close>, \<open>ClusterCmd.Run\<close>) and one of package \<open>api\<close>
  (\<open>LoadingRules\<close>). Go strings are byte strings, so \<open>string\<close> (a list of 8-bit
  \<open>char\<close>) is their model. \<open>strings.Split\<close> and \<open>fmt.Sprintf\<close> are modelled as
  functions, as far as the code uses them. Everything else the functions call
  outside the sources at hand (the API client, \<open>net/url\<close>, \<open>encoding/base64\<close>,
  \<open>os\<close>, \<open>os/user\<close>, \<open>filepath.Join\<close>, and the sibling functions
  \<open>newAPIConfig\<close> and \<open>login\<close>) is a parameter of the model, so the theorems hold
  for every behaviour of these collaborators; the default loading rules of
  client-go are modelled from the spec. \<open>Run\<close> returns its error together
  with the list of the calls it made to the client, \<open>newAPIConfig\<close> and \<open>login\<close>,
  which is how "before any lookup" and "never invoked" are stated.
\<close>

subsection \<open>Data\<close>

text \<open>\<open>types.NamespacedName\<close> of k8s.io/apimachinery.\<close>

record NamespacedName =
  Name :: string
  Namespace :: string

text \<open>
  Go \<open>error\<close> values. \<open>Errorf format operands\<close> is \<open>fmt.Errorf(format, operands...)\<close>,
  kept structured: the format string as written in the source and the operands it is
  applied to, so that the wrapped cause of a \<open>%w\<close> verb stays visible.
  \<open>Foreign msg\<close> is an error value made outside the modelled functions (by the API
  client, a library or a sibling function), named by a message.
\<close>

datatype error =
    Foreign string
  | Errorf string "operand list"
and operand =
    Op_error error
  | Op_NamespacedName NamespacedName

text \<open>
  \<open>infrastructure.KubernetesCluster\<close> (github.com/ninech/apis), with the fields the
  code reads: name and namespace of the embedded object metadata, and
  \<open>Status.AtProvider\<close>.
\<close>

record KubernetesClusterObservation =
  APIEndpoint :: string
  OIDCIssuerURL :: string
  OIDCClientID :: string
  APICACert :: string

record KubernetesClusterStatus =
  AtProvider :: KubernetesClusterObservation

record KubernetesCluster =
  meta_Name :: string
  meta_Namespace :: string
  Status :: KubernetesClusterStatus

text \<open>\<open>ClusterCmd\<close>: the command's argument and flag.\<close>

record ClusterCmd =
  cmd_Name :: string
  ExecPlugin :: bool

text \<open>
  \<open>api.Client\<close>, with what \<open>Run\<close> uses: the point lookup \<open>Get\<close> for a cluster
  object (it fills the object or returns an error), the kubeconfig path and the
  ambient namespace.
\<close>

record Client =
  Get :: "NamespacedName \<Rightarrow> error + KubernetesCluster"
  KubeconfigPath :: string
  client_Namespace :: string

text \<open>
  The functional options that \<open>Run\<close> passes on: \<open>overrideName\<close> and \<open>setCACert\<close>
  to \<open>newAPIConfig\<close>, \<open>runExecPlugin\<close> and \<open>switchCurrentContext\<close> to \<open>login\<close>.
  Their bodies are not among the sources; \<open>Run\<close> only builds and hands them over.
\<close>

datatype apiConfigOption = overrideName string | setCACert string

datatype loginOption = runExecPlugin bool | switchCurrentContext

text \<open>
  What \<open>Run\<close> calls besides the client: \<open>url.Parse\<close>,
  \<open>base64.StdEncoding.DecodeString\<close>, the process arguments \<open>os.Args\<close>, and the
  sibling functions \<open>newAPIConfig\<close> and \<open>login\<close>. \<open>'url\<close> stands for \<open>*url.URL\<close>
  and \<open>'cfg\<close> for the client configuration that \<open>newAPIConfig\<close> returns.
\<close>

record ('url, 'cfg) externals =
  url_Parse :: "string \<Rightarrow> error + 'url"
  base64_DecodeString :: "string \<Rightarrow> error + string"
  os_Args :: "string list"
  newAPIConfig ::
    "'url \<Rightarrow> 'url \<Rightarrow> string \<Rightarrow> string \<Rightarrow> apiConfigOption list \<Rightarrow> error + 'cfg"
  login :: "'cfg \<Rightarrow> string \<Rightarrow> loginOption list \<Rightarrow> error option"

text \<open>
  The calls with an effect outside the process, in the order \<open>Run\<close> makes them: the
  API lookup, the construction of the client configuration, and the login that
  merges it into the kubeconfig file.
\<close>

datatype ('url, 'cfg) call =
    Call_Get NamespacedName
  | Call_newAPIConfig 'url 'url string string "apiConfigOption list"
  | Call_login 'cfg string "loginOption list"

subsection \<open>\<open>strings.Split\<close> and \<open>fmt.Sprintf\<close>\<close>

text \<open>\<open>strings.IndexByte\<close>: the index of the first occurrence, \<open>None\<close> for Go's \<open>-1\<close>.\<close>

fun strings_IndexByte :: "string \<Rightarrow> char \<Rightarrow> nat option" where
  "strings_IndexByte [] c = None"
| "strings_IndexByte (x # xs) c =
     (if x = c then Some 0 else map_option Suc (strings_IndexByte xs c))"

text \<open>
  \<open>strings.Split(s, sep)\<close> for a separator of one byte (the repository splits at
  \<open>"/"\<close>): cut at the first separator, go on with what follows it, and end with the
  remainder, so a string without separator gives the one-element list of itself.
\<close>

function strings_Split :: "string \<Rightarrow> char \<Rightarrow> string list" where
  "strings_Split s sep =
     (case strings_IndexByte s sep of
        None \<Rightarrow> [s]
      | Some m \<Rightarrow> take m s # strings_Split (drop (m + 1) s) sep)"
  by pat_completeness auto
termination
proof (relation "measure (\<lambda>(s, sep). length s)")
  show "wf (measure (\<lambda>(s, sep). length s))"
    by simp
next
  fix s :: string and sep :: char and m :: nat
  assume "strings_IndexByte s sep = Some m"
  then have "m < length s"
    by (induction s arbitrary: m) (auto split: if_splits)
  then show "((drop (m + 1) s, sep), (s, sep)) \<in> measure (\<lambda>(s, sep). length s)"
    by simp
qed

declare strings_Split.simps [simp del]

text \<open>
  \<open>fmt.Sprintf\<close> for formats whose only verb is \<open>%s\<close>, with string operands: every
  \<open>%s\<close> takes the next operand, every other byte is copied. An operand that is
  missing prints as \<open>%!s(MISSING)\<close>, as \<open>fmt\<close> does. No other verb is interpreted
  and operands left over are dropped; the one format of the repository,
  \<open>"%s/%s"\<close> with two operands, has neither.
\<close>

fun Sprintf :: "string \<Rightarrow> string list \<Rightarrow> string" where
  "Sprintf [] args = []"
| "Sprintf [c] args = [c]"
| "Sprintf (c # d # fmt) args =
     (if c = CHR ''%'' \<and> d = CHR ''s''
      then (case args of
              a # rest \<Rightarrow> a @ Sprintf fmt rest
            | [] \<Rightarrow> ''%!s(MISSING)'' @ Sprintf fmt [])
      else c # Sprintf (d # fmt) args)"

subsection \<open>\<open>clusterName\<close> and \<open>ContextName\<close>\<close>

text \<open>
  \<open>clusterName(name, namespace)\<close>: when the argument splits at \<open>"/"\<close> into exactly
  two parts they replace name and namespace; an empty namespace is the error
  \<open>namespace cannot be empty\<close>.
\<close>

definition clusterName :: "string \<Rightarrow> string \<Rightarrow> error + NamespacedName" where
  "clusterName name namespace =
     (let parts = strings_Split name (CHR ''/'');
          (name, namespace) =
            (if length parts = 2 then (parts ! 0, parts ! 1) else (name, namespace))
      in if namespace = []
         then Inl (Errorf ''namespace cannot be empty'' [])
         else Inr \<lparr>Name = name, Namespace = namespace\<rparr>)"

definition ContextName :: "KubernetesCluster \<Rightarrow> string" where
  "ContextName cluster = Sprintf ''%s/%s'' [meta_Name cluster, meta_Namespace cluster]"

subsection \<open>\<open>ClusterCmd.Run\<close>\<close>

text \<open>
  \<open>Run\<close> returns the error (\<open>None\<close> for \<open>nil\<close>) and the calls it made, oldest first.
  Each \<open>if err != nil { return ... }\<close> of the source is one \<open>Inl\<close> branch.
\<close>

definition Run ::
  "('url, 'cfg) externals \<Rightarrow> ClusterCmd \<Rightarrow> Client \<Rightarrow> error option \<times> ('url, 'cfg) call list"
where
  "Run ext a client =
     (case clusterName (cmd_Name a) (client_Namespace client) of
        Inl err \<Rightarrow> (Some err, [])
      | Inr name \<Rightarrow>
     (case Get client name of
        Inl err \<Rightarrow> (Some err, [Call_Get name])
      | Inr cluster \<Rightarrow>
     (case url_Parse ext (APIEndpoint (AtProvider (Status cluster))) of
        Inl err \<Rightarrow>
          (Some (Errorf ''invalid cluster API endpoint: %w'' [Op_error err]), [Call_Get name])
      | Inr apiEndpoint \<Rightarrow>
     (case url_Parse ext (OIDCIssuerURL (AtProvider (Status cluster))) of
        Inl err \<Rightarrow>
          (Some (Errorf ''invalid cluster OIDC issuer url: %w'' [Op_error err]), [Call_Get name])
      | Inr issuerURL \<Rightarrow>
     (case base64_DecodeString ext (APICACert (AtProvider (Status cluster))) of
        Inl err \<Rightarrow>
          (Some (Errorf ''unable to decode API CA certificate: %w'' [Op_error err]),
           [Call_Get name])
      | Inr caCert \<Rightarrow>
     (case os_Args ext of
        [] \<Rightarrow> (Some (Errorf ''could not get command name from os.Args'' []), [Call_Get name])
      | command # _ \<Rightarrow>
     (let clientID = OIDCClientID (AtProvider (Status cluster));
          opts = [overrideName (ContextName cluster), setCACert caCert];
          built = Call_newAPIConfig apiEndpoint issuerURL command clientID opts
      in
     (case newAPIConfig ext apiEndpoint issuerURL command clientID opts of
        Inl err \<Rightarrow>
          (Some (Errorf ''unable to create kubeconfig: %w'' [Op_error err]),
           [Call_Get name, built])
      | Inr cfg \<Rightarrow>
     (let lopts = [runExecPlugin (ExecPlugin a), switchCurrentContext];
          logged = Call_login cfg (KubeconfigPath client) lopts
      in
     (case login ext cfg (KubeconfigPath client) lopts of
        Some err \<Rightarrow>
          (Some (Errorf ''error logging in to cluster %s: %w''
                   [Op_NamespacedName name, Op_error err]),
           [Call_Get name, built, logged])
      | None \<Rightarrow> (None, [Call_Get name, built, logged])))))))))))"

subsection \<open>\<open>LoadingRules\<close>\<close>

text \<open>
  \<open>user.User\<close> (only \<open>HomeDir\<close> is read) and \<open>clientcmd.ClientConfigLoadingRules\<close>
  (only \<open>Precedence\<close>, the chain of kubeconfig files in the order they are
  consulted, is touched).
\<close>

record User =
  HomeDir :: string

record ClientConfigLoadingRules =
  Precedence :: "string list"

text \<open>
  What \<open>LoadingRules\<close> reads from its surroundings: the process environment
  (\<open>os.LookupEnv\<close>, \<open>None\<close> for a variable that is not set), the result of
  \<open>user.Current()\<close>, and \<open>filepath.Join\<close>.
\<close>

record host =
  os_LookupEnv :: "string \<Rightarrow> string option"
  user_Current :: "error + User"
  filepath_Join :: "string list \<Rightarrow> string"

text \<open>\<open>os.Getenv\<close>: the empty string for a variable that is not set.\<close>

definition os_Getenv :: "host \<Rightarrow> string \<Rightarrow> string" where
  "os_Getenv h key = (case os_LookupEnv h key of None \<Rightarrow> [] | Some v \<Rightarrow> v)"

text \<open>The constants \<open>clientcmd.RecommendedHomeDir\<close> and \<open>clientcmd.RecommendedFileName\<close>.\<close>

definition RecommendedHomeDir :: string where
  "RecommendedHomeDir = ''.kube''"

definition RecommendedFileName :: string where
  "RecommendedFileName = ''config''"

text \<open>
  Modelled from the spec: \<open>filepath.SplitList\<close> and client-go's \<open>deduplicate\<close>
  are not among the sources. They are the parts of
  \<open>NewDefaultClientConfigLoadingRules\<close> below that read a value of \<open>KUBECONFIG\<close>
  naming several paths: the paths are separated by \<open>:\<close>, and each is kept once,
  at its first place. A value without \<open>:\<close> is the one file path of the spec.
\<close>

definition filepath_SplitList :: "string \<Rightarrow> string list" where
  "filepath_SplitList path = (if path = [] then [] else strings_Split path (CHR '':''))"

fun deduplicate_from :: "string list \<Rightarrow> string list \<Rightarrow> string list" where
  "deduplicate_from encountered [] = []"
| "deduplicate_from encountered (x # xs) =
     (if x \<in> set encountered then deduplicate_from encountered xs
      else x # deduplicate_from (x # encountered) xs)"

definition deduplicate :: "string list \<Rightarrow> string list" where
  "deduplicate s = deduplicate_from [] s"

text \<open>
  Modelled from the spec: client-go's \<open>RecommendedHomeFile\<close> is not among the
  sources. It is the spec's conventional per-user default path, which the comment
  of \<open>New\<close> names: \<open>$HOME/.kube/config\<close>, with the value of \<open>HOME\<close> read from the
  environment (a relative path when \<open>HOME\<close> is not set).
\<close>

definition RecommendedHomeFile :: "host \<Rightarrow> string" where
  "RecommendedHomeFile h =
     filepath_Join h [os_Getenv h ''HOME'', RecommendedHomeDir, RecommendedFileName]"

text \<open>
  Modelled from the spec: client-go's \<open>NewDefaultClientConfigLoadingRules\<close>, which
  \<open>LoadingRules\<close> calls first, is not among the sources. The spec gives the chain it
  returns as the explicit environment-variable override naming a file path, else
  the conventional per-user default path; the comment of \<open>New\<close> names the variable,
  \<open>KUBECONFIG\<close>. So the chain is what \<open>KUBECONFIG\<close> names when that variable is
  set and not empty, else the one file \<open>RecommendedHomeFile\<close>.
\<close>

definition NewDefaultClientConfigLoadingRules :: "host \<Rightarrow> ClientConfigLoadingRules" where
  "NewDefaultClientConfigLoadingRules h =
     (let envVarFiles = os_Getenv h ''KUBECONFIG''
      in if envVarFiles \<noteq> []
         then \<lparr>Precedence = deduplicate (filepath_SplitList envVarFiles)\<rparr>
         else \<lparr>Precedence = [RecommendedHomeFile h]\<rparr>)"

text \<open>
  \<open>LoadingRules\<close>: the default rules; when \<open>HOME\<close> is not set, the current user is
  looked up and \<open>.kube/config\<close> under that user's home directory is appended to
  the chain.
\<close>

definition LoadingRules :: "host \<Rightarrow> error + ClientConfigLoadingRules" where
  "LoadingRules h =
     (let loadingRules = NewDefaultClientConfigLoadingRules h
      in case os_LookupEnv h ''HOME'' of
           Some _ \<Rightarrow> Inr loadingRules
         | None \<Rightarrow>
             (case user_Current h of
                Inl err \<Rightarrow> Inl (Errorf ''could not get current user: %w'' [Op_error err])
              | Inr u \<Rightarrow>
                  Inr (loadingRules
                        \<lparr>Precedence := Precedence loadingRules @
                           [filepath_Join h [HomeDir u, RecommendedHomeDir, RecommendedFileName]]\<rparr>)))"

subsection \<open>Collaborators for the examples\<close>

text \<open>
  The theorems below hold for every collaborator. Their examples run \<open>Run\<close> and
  \<open>LoadingRules\<close> against the following ones.

  \<open>example_url_Parse\<close> follows \<open>url.Parse\<close> of the Go standard library up to the
  scheme: it cuts the fragment off at the first \<open>#\<close>, rejects a control byte
  (\<open>stringContainsCTLByte\<close>), and splits the scheme off (\<open>getScheme\<close>), which rejects
  a leading colon with \<open>missing protocol scheme\<close>. What follows the scheme is kept
  as it is; the checks \<open>net/url\<close> makes there (a colon in the first segment of a
  relative path, host, port, user information, percent escapes) are not modelled,
  so it rejects no string that \<open>url.Parse\<close> accepts. The empty string has nothing
  for those checks to reject: \<open>url.Parse\<close> returns the zero \<open>URL\<close> and no error.
\<close>

record URL =
  Scheme :: string
  Rest :: string
  RawFragment :: string

definition stringContainsCTLByte :: "string \<Rightarrow> bool" where
  "stringContainsCTLByte s = list_ex (\<lambda>b. (of_char b :: nat) < 32 \<or> (of_char b :: nat) = 127) s"

definition isLetter :: "char \<Rightarrow> bool" where
  "isLetter c =
     (let n = (of_char c :: nat) in (97 \<le> n \<and> n \<le> 122) \<or> (65 \<le> n \<and> n \<le> 90))"

definition isSchemeByte :: "char \<Rightarrow> bool" where
  "isSchemeByte c =
     (let n = (of_char c :: nat)
      in (48 \<le> n \<and> n \<le> 57) \<or> c = CHR ''+'' \<or> c = CHR ''-'' \<or> c = CHR ''.'')"

text \<open>
  \<open>getScheme\<close>: the loop over the bytes of \<open>rawURL\<close>, with \<open>i\<close> the index of the
  byte at the head of the third argument.
\<close>

fun getScheme_from :: "string \<Rightarrow> nat \<Rightarrow> string \<Rightarrow> error + string \<times> string" where
  "getScheme_from rawURL i [] = Inr ([], rawURL)"
| "getScheme_from rawURL i (c # cs) =
     (if isLetter c then getScheme_from rawURL (i + 1) cs
      else if isSchemeByte c
        then (if i = 0 then Inr ([], rawURL) else getScheme_from rawURL (i + 1) cs)
      else if c = CHR '':''
        then (if i = 0 then Inl (Foreign ''missing protocol scheme'')
              else Inr (take i rawURL, drop (i + 1) rawURL))
      else Inr ([], rawURL))"

definition getScheme :: "string \<Rightarrow> error + string \<times> string" where
  "getScheme rawURL = getScheme_from rawURL 0 rawURL"

definition ToLower_ascii :: "string \<Rightarrow> string" where
  "ToLower_ascii s =
     map (\<lambda>c. let n = (of_char c :: nat) in if 65 \<le> n \<and> n \<le> 90 then char_of (n + 32) else c) s"

definition example_url_Parse :: "string \<Rightarrow> error + URL" where
  "example_url_Parse rawURL =
     (let (u, frag) =
            (case strings_IndexByte rawURL (CHR ''#'') of
               None \<Rightarrow> (rawURL, [])
             | Some i \<Rightarrow> (take i rawURL, drop (i + 1) rawURL))
      in if stringContainsCTLByte u
         then Inl (Foreign ''net/url: invalid control character in URL'')
         else (case getScheme u of
                 Inl err \<Rightarrow> Inl err
               | Inr (scheme, rest) \<Rightarrow>
                   Inr \<lparr>Scheme = ToLower_ascii scheme, Rest = rest, RawFragment = frag\<rparr>))"

text \<open>
  \<open>example_DecodeString\<close> is \<open>base64.StdEncoding.DecodeString\<close>: the standard
  alphabet with \<open>=\<close> padding, carriage returns and line feeds skipped, nothing
  after the padding, and no check of the unused bits of the last sextet. The
  position that Go's \<open>CorruptInputError\<close> carries is left out.
\<close>

definition encodeStd :: string where
  "encodeStd = ''ABCDEFGHIJKLMNOPQRSTUVWXYZabcdefghijklmnopqrstuvwxyz0123456789+/''"

definition decodeMap :: "char \<Rightarrow> nat option" where
  "decodeMap c = strings_IndexByte encodeStd c"

definition quantum :: "nat \<Rightarrow> nat \<Rightarrow> nat \<Rightarrow> nat \<Rightarrow> string" where
  "quantum a b c d =
     (let val = a * 262144 + b * 4096 + c * 64 + d
      in [char_of (val div 65536), char_of (val div 256), char_of val])"

fun decodeQuanta :: "string \<Rightarrow> string option" where
  "decodeQuanta [] = Some []"
| "decodeQuanta (a # b # c # d # rest) =
     (case (decodeMap a, decodeMap b) of
        (Some x, Some y) \<Rightarrow>
          (if c = CHR ''=''
           then (if d = CHR ''='' \<and> rest = [] then Some (take 1 (quantum x y 0 0)) else None)
           else (case decodeMap c of
                   None \<Rightarrow> None
                 | Some z \<Rightarrow>
                     (if d = CHR ''=''
                      then (if rest = [] then Some (take 2 (quantum x y z 0)) else None)
                      else (case decodeMap d of
                              None \<Rightarrow> None
                            | Some w \<Rightarrow> map_option (\<lambda>r. quantum x y z w @ r) (decodeQuanta rest)))))
      | _ \<Rightarrow> None)"
| "decodeQuanta _ = None"

definition example_DecodeString :: "string \<Rightarrow> error + string" where
  "example_DecodeString s =
     (case decodeQuanta (filter (\<lambda>c. c \<noteq> CHR 0x0A \<and> c \<noteq> CHR 0x0D) s) of
        None \<Rightarrow> Inl (Foreign ''illegal base64 data'')
      | Some bytes \<Rightarrow> Inr bytes)"

text \<open>
  Stand-ins for the sibling functions: \<open>example_newAPIConfig\<close> succeeds and returns
  what it was given, \<open>example_login\<close> succeeds.
\<close>

type_synonym example_cfg = "URL \<times> URL \<times> string \<times> string \<times> apiConfigOption list"

definition example_newAPIConfig ::
  "URL \<Rightarrow> URL \<Rightarrow> string \<Rightarrow> string \<Rightarrow> apiConfigOption list \<Rightarrow> error + example_cfg"
where
  "example_newAPIConfig apiEndpoint issuerURL command clientID opts =
     Inr (apiEndpoint, issuerURL, command, clientID, opts)"

definition example_login :: "example_cfg \<Rightarrow> string \<Rightarrow> loginOption list \<Rightarrow> error option" where
  "example_login cfg kubeconfigPath opts = None"

definition example_externals :: "string list \<Rightarrow> (URL, example_cfg) externals" where
  "example_externals args =
     \<lparr>url_Parse = example_url_Parse,
      base64_DecodeString = example_DecodeString,
      os_Args = args,
      newAPIConfig = example_newAPIConfig,
      login = example_login\<rparr>"

text \<open>
  A cluster object \<open>prod\<close> in namespace \<open>team-a\<close> with the given API endpoint and
  CA certificate, and a client whose lookup knows exactly the given object.
\<close>

definition example_cluster :: "string \<Rightarrow> string \<Rightarrow> KubernetesCluster" where
  "example_cluster endpoint cacert =
     \<lparr>meta_Name = ''prod'', meta_Namespace = ''team-a'',
      Status = \<lparr>AtProvider =
        \<lparr>APIEndpoint = endpoint, OIDCIssuerURL = ''https://auth.example.org'',
         OIDCClientID = ''nctl'', APICACert = cacert\<rparr>\<rparr>\<rparr>"

definition example_cmd :: "string \<Rightarrow> ClusterCmd" where
  "example_cmd name = \<lparr>cmd_Name = name, ExecPlugin = False\<rparr>"

definition example_client :: "KubernetesCluster \<Rightarrow> string \<Rightarrow> Client" where
  "example_client cluster namespace =
     \<lparr>Get = (\<lambda>name.
         if name = \<lparr>Name = meta_Name cluster, Namespace = meta_Namespace cluster\<rparr>
         then Inr cluster else Inl (Foreign ''not found'')),
      KubeconfigPath = ''/home/alice/.kube/config'',
      client_Namespace = namespace\<rparr>"

text \<open>
  \<open>example_Join\<close> joins the non-empty elements with \<open>/\<close>, which is
  \<open>filepath.Join\<close> on elements that are already clean.
\<close>

fun example_Join :: "string list \<Rightarrow> string" where
  "example_Join [] = []"
| "example_Join [e] = e"
| "example_Join (e # es) =
     (if e = [] then example_Join es
      else if example_Join es = [] then e
      else e @ ''/'' @ example_Join es)"

text \<open>A host with the given environment and the given result of \<open>user.Current()\<close>.\<close>

definition example_host :: "(string \<Rightarrow> string option) \<Rightarrow> error + User \<Rightarrow> host" where
  "example_host environ current =
     \<lparr>os_LookupEnv = environ,
      user_Current = current,
      filepath_Join = example_Join\<rparr>"

section \<open>Properties\<close>

subsection \<open>Splitting at a byte\<close>

lemma IndexByte_None_iff: "strings_IndexByte s c = None \<longleftrightarrow> c \<notin> set s"
  by (induction s) auto

lemma IndexByte_first: "c \<notin> set a \<Longrightarrow> strings_IndexByte (a @ c # b) c = Some (length a)"
  by (induction a) auto

lemma IndexByte_Some_count:
  "strings_IndexByte s c = Some m \<Longrightarrow> count_list s c = Suc (count_list (drop (Suc m) s) c)"
  by (induction s arbitrary: m) (auto split: if_splits)

lemma Split_without: "sep \<notin> set s \<Longrightarrow> strings_Split s sep = [s]"
  using IndexByte_None_iff [of s sep] by (subst strings_Split.simps) simp

lemma Split_at_first:
  "sep \<notin> set a \<Longrightarrow> strings_Split (a @ sep # b) sep = a # strings_Split b sep"
  by (subst strings_Split.simps) (simp add: IndexByte_first)

text \<open>The number of parts is the number of separators plus one.\<close>

lemma length_Split: "length (strings_Split s sep) = Suc (count_list s sep)"
proof (induction s sep rule: strings_Split.induct)
  case (1 s sep)
  show ?case
  proof (cases "strings_IndexByte s sep")
    case None
    then have "sep \<notin> set s"
      by (simp add: IndexByte_None_iff)
    then show ?thesis
      by (simp add: Split_without count_list_0_iff)
  next
    case (Some m)
    with "1.IH" have "length (strings_Split (drop (m + 1) s) sep) =
        Suc (count_list (drop (m + 1) s) sep)"
      by simp
    with Some show ?thesis
      by (subst strings_Split.simps) (simp add: IndexByte_Some_count)
  qed
qed

subsection \<open>The two ways through \<open>clusterName\<close>\<close>

text \<open>Exactly one separator: the two parts are taken, whatever the ambient namespace.\<close>

lemma clusterName_two_parts:
  assumes "CHR ''/'' \<notin> set name" and "CHR ''/'' \<notin> set ns"
  shows "clusterName (name @ CHR ''/'' # ns) ambient =
    (if ns = [] then Inl (Errorf ''namespace cannot be empty'' [])
     else Inr \<lparr>Name = name, Namespace = ns\<rparr>)"
proof -
  have "strings_Split (name @ CHR ''/'' # ns) (CHR ''/'') = [name, ns]"
    using assms by (simp add: Split_at_first Split_without)
  then show ?thesis
    by (simp add: clusterName_def)
qed

text \<open>No separator, or more than one: name and namespace stay as they were given.\<close>

lemma clusterName_not_two_parts:
  assumes "count_list name (CHR ''/'') \<noteq> 1"
  shows "clusterName name ambient =
    (if ambient = [] then Inl (Errorf ''namespace cannot be empty'' [])
     else Inr \<lparr>Name = name, Namespace = ambient\<rparr>)"
proof -
  have "length (strings_Split name (CHR ''/'')) \<noteq> 2"
    using assms by (simp add: length_Split)
  then show ?thesis
    by (simp add: clusterName_def)
qed

subsection \<open>\<open>Run\<close> up to the lookup\<close>

lemma Run_name_error:
  "clusterName (cmd_Name a) (client_Namespace client) = Inl err \<Longrightarrow>
   Run ext a client = (Some err, [])"
  by (simp add: Run_def)

lemma Run_lookup_first:
  "clusterName (cmd_Name a) (client_Namespace client) = Inr name \<Longrightarrow>
   take 1 (snd (Run ext a client)) = [Call_Get name]"
  by (simp add: Run_def Let_def split: sum.splits list.splits option.splits)

subsection \<open>\<open>Run\<close> after the lookup, one check at a time\<close>

lemma Run_lookup_error:
  assumes "clusterName (cmd_Name a) (client_Namespace client) = Inr name"
      and "Get client name = Inl err"
  shows "Run ext a client = (Some err, [Call_Get name])"
  using assms by (simp add: Run_def)

lemma Run_endpoint_error:
  assumes "clusterName (cmd_Name a) (client_Namespace client) = Inr name"
      and "Get client name = Inr cluster"
      and "url_Parse ext (APIEndpoint (AtProvider (Status cluster))) = Inl err"
  shows "Run ext a client =
    (Some (Errorf ''invalid cluster API endpoint: %w'' [Op_error err]), [Call_Get name])"
  using assms by (simp add: Run_def)

lemma Run_issuer_error:
  assumes "clusterName (cmd_Name a) (client_Namespace client) = Inr name"
      and "Get client name = Inr cluster"
      and "url_Parse ext (APIEndpoint (AtProvider (Status cluster))) = Inr apiEndpoint"
      and "url_Parse ext (OIDCIssuerURL (AtProvider (Status cluster))) = Inl err"
  shows "Run ext a client =
    (Some (Errorf ''invalid cluster OIDC issuer url: %w'' [Op_error err]), [Call_Get name])"
  using assms by (simp add: Run_def)

lemma Run_decode_error:
  assumes "clusterName (cmd_Name a) (client_Namespace client) = Inr name"
      and "Get client name = Inr cluster"
      and "url_Parse ext (APIEndpoint (AtProvider (Status cluster))) = Inr apiEndpoint"
      and "url_Parse ext (OIDCIssuerURL (AtProvider (Status cluster))) = Inr issuerURL"
      and "base64_DecodeString ext (APICACert (AtProvider (Status cluster))) = Inl err"
  shows "Run ext a client =
    (Some (Errorf ''unable to decode API CA certificate: %w'' [Op_error err]), [Call_Get name])"
  using assms by (simp add: Run_def)

lemma Run_no_command:
  assumes "clusterName (cmd_Name a) (client_Namespace client) = Inr name"
      and "Get client name = Inr cluster"
      and "url_Parse ext (APIEndpoint (AtProvider (Status cluster))) = Inr apiEndpoint"
      and "url_Parse ext (OIDCIssuerURL (AtProvider (Status cluster))) = Inr issuerURL"
      and "base64_DecodeString ext (APICACert (AtProvider (Status cluster))) = Inr caCert"
      and "os_Args ext = []"
  shows "Run ext a client =
    (Some (Errorf ''could not get command name from os.Args'' []), [Call_Get name])"
  using assms by (simp add: Run_def)

text \<open>With the API endpoint parsed, \<open>Run\<close> is the rest of its body.\<close>

lemma Run_after_endpoint:
  assumes "clusterName (cmd_Name a) (client_Namespace client) = Inr name"
      and "Get client name = Inr cluster"
      and "url_Parse ext (APIEndpoint (AtProvider (Status cluster))) = Inr apiEndpoint"
  shows "Run ext a client =
     (case url_Parse ext (OIDCIssuerURL (AtProvider (Status cluster))) of
        Inl err \<Rightarrow>
          (Some (Errorf ''invalid cluster OIDC issuer url: %w'' [Op_error err]), [Call_Get name])
      | Inr issuerURL \<Rightarrow>
     (case base64_DecodeString ext (APICACert (AtProvider (Status cluster))) of
        Inl err \<Rightarrow>
          (Some (Errorf ''unable to decode API CA certificate: %w'' [Op_error err]),
           [Call_Get name])
      | Inr caCert \<Rightarrow>
     (case os_Args ext of
        [] \<Rightarrow> (Some (Errorf ''could not get command name from os.Args'' []), [Call_Get name])
      | command # _ \<Rightarrow>
     (let clientID = OIDCClientID (AtProvider (Status cluster));
          opts = [overrideName (ContextName cluster), setCACert caCert];
          built = Call_newAPIConfig apiEndpoint issuerURL command clientID opts
      in
     (case newAPIConfig ext apiEndpoint issuerURL command clientID opts of
        Inl err \<Rightarrow>
          (Some (Errorf ''unable to create kubeconfig: %w'' [Op_error err]),
           [Call_Get name, built])
      | Inr cfg \<Rightarrow>
     (let lopts = [runExecPlugin (ExecPlugin a), switchCurrentContext];
          logged = Call_login cfg (KubeconfigPath client) lopts
      in
     (case login ext cfg (KubeconfigPath client) lopts of
        Some err \<Rightarrow>
          (Some (Errorf ''error logging in to cluster %s: %w''
                   [Op_NamespacedName name, Op_error err]),
           [Call_Get name, built, logged])
      | None \<Rightarrow> (None, [Call_Get name, built, logged]))))))))"
  using assms by (simp add: Run_def)

text \<open>Once the API endpoint has parsed, no later step reports it as invalid.\<close>

lemma Run_past_endpoint:
  assumes "clusterName (cmd_Name a) (client_Namespace client) = Inr name"
      and "Get client name = Inr cluster"
      and "url_Parse ext (APIEndpoint (AtProvider (Status cluster))) = Inr apiEndpoint"
  shows "fst (Run ext a client) \<noteq> Some (Errorf ''invalid cluster API endpoint: %w'' ops)"
proof (cases "url_Parse ext (OIDCIssuerURL (AtProvider (Status cluster)))")
  case (Inl err)
  show ?thesis
    by (simp add: Run_issuer_error [OF assms Inl])
next
  case issuer: (Inr issuerURL)
  show ?thesis
  proof (cases "base64_DecodeString ext (APICACert (AtProvider (Status cluster)))")
    case (Inl err)
    show ?thesis
      by (simp add: Run_decode_error [OF assms issuer Inl])
  next
    case ca: (Inr caCert)
    show ?thesis
    proof (cases "os_Args ext")
      case Nil
      show ?thesis
        by (simp add: Run_no_command [OF assms issuer ca Nil])
    next
      case (Cons command args)
      with assms issuer ca show ?thesis
        by (simp add: Run_def Let_def split: sum.split option.split)
    qed
  qed
qed

subsection \<open>The three ways through \<open>LoadingRules\<close>\<close>

lemma LoadingRules_home:
  "os_LookupEnv h ''HOME'' = Some home \<Longrightarrow>
   LoadingRules h = Inr (NewDefaultClientConfigLoadingRules h)"
  by (simp add: LoadingRules_def)

lemma LoadingRules_no_user:
  "os_LookupEnv h ''HOME'' = None \<Longrightarrow> user_Current h = Inl cause \<Longrightarrow>
   LoadingRules h = Inl (Errorf ''could not get current user: %w'' [Op_error cause])"
  by (simp add: LoadingRules_def)

lemma LoadingRules_user:
  "os_LookupEnv h ''HOME'' = None \<Longrightarrow> user_Current h = Inr u \<Longrightarrow>
   LoadingRules h =
     Inr ((NewDefaultClientConfigLoadingRules h)
           \<lparr>Precedence := Precedence (NewDefaultClientConfigLoadingRules h) @
              [filepath_Join h [HomeDir u, ''.kube'', ''config'']]\<rparr>)"
  by (simp add: LoadingRules_def RecommendedHomeDir_def RecommendedFileName_def Let_def)

text \<open>The default chain: the file that \<open>KUBECONFIG\<close> names, else the per-user default.\<close>

lemma NewDefault_Precedence:
  "Precedence (NewDefaultClientConfigLoadingRules h) =
     (if os_Getenv h ''KUBECONFIG'' \<noteq> []
      then deduplicate (filepath_SplitList (os_Getenv h ''KUBECONFIG''))
      else [filepath_Join h [os_Getenv h ''HOME'', ''.kube'', ''config'']])"
  by (simp add: NewDefaultClientConfigLoadingRules_def RecommendedHomeFile_def
      RecommendedHomeDir_def RecommendedFileName_def Let_def)

lemma NewDefault_one_file:
  assumes "os_LookupEnv h ''KUBECONFIG'' = Some file" and "file \<noteq> []"
      and "CHR '':'' \<notin> set file"
  shows "Precedence (NewDefaultClientConfigLoadingRules h) = [file]"
proof -
  have "os_Getenv h ''KUBECONFIG'' = file"
    using assms(1) by (simp add: os_Getenv_def)
  moreover have "filepath_SplitList file = [file]"
    using assms(2,3) by (simp add: filepath_SplitList_def Split_without)
  ultimately show ?thesis
    using assms(2) by (simp add: NewDefault_Precedence deduplicate_def)
qed

subsection \<open>The collaborators of the examples, evaluated\<close>

lemma example_url_Parse_empty:
  "example_url_Parse [] = Inr \<lparr>Scheme = [], Rest = [], RawFragment = []\<rparr>"
  by (simp add: example_url_Parse_def stringContainsCTLByte_def getScheme_def ToLower_ascii_def)

lemma example_url_Parse_colon:
  "example_url_Parse '':'' = Inl (Foreign ''missing protocol scheme'')"
  by (simp add: example_url_Parse_def stringContainsCTLByte_def getScheme_def isLetter_def
      isSchemeByte_def)

lemma example_url_Parse_api:
  "example_url_Parse ''https://api.example.org'' =
     Inr \<lparr>Scheme = ''https'', Rest = ''//api.example.org'', RawFragment = []\<rparr>"
  by (simp add: example_url_Parse_def stringContainsCTLByte_def getScheme_def isLetter_def
      isSchemeByte_def ToLower_ascii_def)

lemma example_url_Parse_auth:
  "example_url_Parse ''https://auth.example.org'' =
     Inr \<lparr>Scheme = ''https'', Rest = ''//auth.example.org'', RawFragment = []\<rparr>"
  by (simp add: example_url_Parse_def stringContainsCTLByte_def getScheme_def isLetter_def
      isSchemeByte_def ToLower_ascii_def)

lemma example_DecodeString_A: "example_DecodeString ''QQ=='' = Inr ''A''"
  by (simp add: example_DecodeString_def decodeMap_def encodeStd_def quantum_def char_of_eq_iff)

lemma example_DecodeString_bad:
  "example_DecodeString ''!!!'' = Inl (Foreign ''illegal base64 data'')"
  by (simp add: example_DecodeString_def)

lemma clusterName_prod:
  "clusterName ''prod'' ''team-a'' = Inr \<lparr>Name = ''prod'', Namespace = ''team-a''\<rparr>"
  by (simp add: clusterName_def strings_Split.simps)

lemma example_client_Get:
  "Get (example_client (example_cluster endpoint cacert) namespace)
     \<lparr>Name = ''prod'', Namespace = ''team-a''\<rparr> = Inr (example_cluster endpoint cacert)"
  by (simp add: example_client_def example_cluster_def)


section \<open>The claims\<close>

text \<open>
  C1, as amended. An argument with more than one \<open>/\<close> is not split: \<open>clusterName\<close>
  keeps the whole argument as name and the ambient namespace as namespace. It fails
  with \<open>namespace cannot be empty\<close> (the spec's \<open>InvalidIdentifier\<close>) exactly when the
  ambient namespace is empty, and \<open>Run\<close> then returns before any API lookup; with a
  non-empty ambient namespace it succeeds and the first thing \<open>Run\<close> does is the
  lookup of that identity.
\<close>

theorem clusterName_more_than_one_slash:
  "1 < count_list (cmd_Name a) (CHR ''/'') \<Longrightarrow>
   clusterName (cmd_Name a) (client_Namespace client) =
     (if client_Namespace client = [] then Inl (Errorf ''namespace cannot be empty'' [])
      else Inr \<lparr>Name = cmd_Name a, Namespace = client_Namespace client\<rparr>) \<and>
   (if client_Namespace client = []
    then Run ext a client = (Some (Errorf ''namespace cannot be empty'' []), [])
    else take 1 (snd (Run ext a client)) =
           [Call_Get \<lparr>Name = cmd_Name a, Namespace = client_Namespace client\<rparr>])"
proof -
  assume "1 < count_list (cmd_Name a) (CHR ''/'')"
  then have name: "clusterName (cmd_Name a) (client_Namespace client) =
     (if client_Namespace client = [] then Inl (Errorf ''namespace cannot be empty'' [])
      else Inr \<lparr>Name = cmd_Name a, Namespace = client_Namespace client\<rparr>)"
    by (simp add: clusterName_not_two_parts)
  show ?thesis
  proof (cases "client_Namespace client = []")
    case True
    with name show ?thesis
      by (simp add: Run_name_error)
  next
    case False
    with name Run_lookup_first [of a client _ ext] show ?thesis
      by simp
  qed
qed

theorem clusterName_more_than_one_slash_witness:
  "1 < count_list (cmd_Name (example_cmd ''a/b/c'')) (CHR ''/'') \<and>
   clusterName ''a/b/c'' ''default'' = Inr \<lparr>Name = ''a/b/c'', Namespace = ''default''\<rparr> \<and>
   take 1 (snd (Run (example_externals [''nctl'']) (example_cmd ''a/b/c'')
                  (example_client (example_cluster ''https://api.example.org'' ''QQ=='') ''default'')))
     = [Call_Get \<lparr>Name = ''a/b/c'', Namespace = ''default''\<rparr>] \<and>
   Run (example_externals [''nctl'']) (example_cmd ''a/b/c'')
     (example_client (example_cluster ''https://api.example.org'' ''QQ=='') [])
     = (Some (Errorf ''namespace cannot be empty'' []), [])"
  using clusterName_more_than_one_slash [of "example_cmd ''a/b/c''"
          "example_client (example_cluster ''https://api.example.org'' ''QQ=='') ''default''"
          "example_externals [''nctl'']"]
        clusterName_more_than_one_slash [of "example_cmd ''a/b/c''"
          "example_client (example_cluster ''https://api.example.org'' ''QQ=='') []"
          "example_externals [''nctl'']"]
  by (simp add: example_cmd_def example_client_def)

text \<open>
  The claim as it stands fails at \<open>a/b/c\<close> with the ambient namespace \<open>default\<close>:
  the name is accepted, and \<open>Run\<close> goes on to the lookup, which is what fails.
\<close>

theorem clusterName_more_than_one_slash_accepted:
  "1 < count_list ''a/b/c'' (CHR ''/'') \<and>
   clusterName ''a/b/c'' ''default'' = Inr \<lparr>Name = ''a/b/c'', Namespace = ''default''\<rparr> \<and>
   Run (example_externals [''nctl'']) (example_cmd ''a/b/c'')
     (example_client (example_cluster ''https://api.example.org'' ''QQ=='') ''default'')
     = (Some (Foreign ''not found''), [Call_Get \<lparr>Name = ''a/b/c'', Namespace = ''default''\<rparr>])"
  by (simp add: Run_def clusterName_def strings_Split.simps example_cmd_def example_client_def
      example_cluster_def)

text \<open>
  C2, as amended. For a cluster object that the lookup returned, \<open>Run\<close> fails with
  \<open>invalid cluster API endpoint\<close> (the spec's \<open>IncompleteStatus\<close>) exactly when
  \<open>url.Parse\<close> returns an error for \<open>status.apiEndpoint\<close>; nothing but the lookup
  has been called then, so \<open>newAPIConfig\<close> and \<open>login\<close> are not invoked and the
  kubeconfig is not touched. An empty endpoint is not rejected for being empty:
  where \<open>url.Parse\<close> accepts the empty string, as Go's does, \<open>Run\<close> goes on with
  the parsed URL to the remaining checks in their order (issuer URL, CA
  certificate, \<open>os.Args\<close>) and, when they pass, to \<open>newAPIConfig\<close> and \<open>login\<close>.
  \<open>remaining\<close> is the rest of the body of \<open>Run\<close> for a parsed endpoint.
\<close>

theorem Run_endpoint_checked_by_url_Parse:
  assumes "clusterName (cmd_Name a) (client_Namespace client) = Inr name"
      and "Get client name = Inr cluster"
  shows "let remaining = (\<lambda>apiEndpoint.
     (case url_Parse ext (OIDCIssuerURL (AtProvider (Status cluster))) of
        Inl err \<Rightarrow>
          (Some (Errorf ''invalid cluster OIDC issuer url: %w'' [Op_error err]), [Call_Get name])
      | Inr issuerURL \<Rightarrow>
     (case base64_DecodeString ext (APICACert (AtProvider (Status cluster))) of
        Inl err \<Rightarrow>
          (Some (Errorf ''unable to decode API CA certificate: %w'' [Op_error err]),
           [Call_Get name])
      | Inr caCert \<Rightarrow>
     (case os_Args ext of
        [] \<Rightarrow> (Some (Errorf ''could not get command name from os.Args'' []), [Call_Get name])
      | command # _ \<Rightarrow>
     (let clientID = OIDCClientID (AtProvider (Status cluster));
          opts = [overrideName (ContextName cluster), setCACert caCert];
          built = Call_newAPIConfig apiEndpoint issuerURL command clientID opts
      in
     (case newAPIConfig ext apiEndpoint issuerURL command clientID opts of
        Inl err \<Rightarrow>
          (Some (Errorf ''unable to create kubeconfig: %w'' [Op_error err]),
           [Call_Get name, built])
      | Inr cfg \<Rightarrow>
     (let lopts = [runExecPlugin (ExecPlugin a), switchCurrentContext];
          logged = Call_login cfg (KubeconfigPath client) lopts
      in
     (case login ext cfg (KubeconfigPath client) lopts of
        Some err \<Rightarrow>
          (Some (Errorf ''error logging in to cluster %s: %w''
                   [Op_NamespacedName name, Op_error err]),
           [Call_Get name, built, logged])
      | None \<Rightarrow> (None, [Call_Get name, built, logged])))))))))
   in
     (case url_Parse ext (APIEndpoint (AtProvider (Status cluster))) of
        Inl err \<Rightarrow> Run ext a client =
          (Some (Errorf ''invalid cluster API endpoint: %w'' [Op_error err]), [Call_Get name])
      | Inr apiEndpoint \<Rightarrow>
          Run ext a client = remaining apiEndpoint \<and>
          (\<forall>err. fst (Run ext a client) \<noteq>
             Some (Errorf ''invalid cluster API endpoint: %w'' [Op_error err]))) \<and>
     (APIEndpoint (AtProvider (Status cluster)) = [] \<longrightarrow> url_Parse ext [] = Inr zero \<longrightarrow>
        Run ext a client = remaining zero)"
  unfolding Let_def
proof (intro conjI impI, goal_cases)
  case 1
  show ?case
  proof (cases "url_Parse ext (APIEndpoint (AtProvider (Status cluster)))")
    case (Inl err)
    then show ?thesis
      by (simp add: Run_endpoint_error [OF assms Inl])
  next
    case (Inr apiEndpoint)
    from Run_after_endpoint [OF assms Inr, unfolded Let_def] Run_past_endpoint [OF assms Inr]
    show ?thesis
      unfolding Inr sum.case by (intro conjI allI)
  qed
next
  case 2
  then have "url_Parse ext (APIEndpoint (AtProvider (Status cluster))) = Inr zero"
    by simp
  from Run_after_endpoint [OF assms this, unfolded Let_def] show ?case .
qed

theorem Run_endpoint_checked_by_url_Parse_witness:
  "clusterName (cmd_Name (example_cmd ''prod''))
     (client_Namespace (example_client (example_cluster '':'' ''QQ=='') ''team-a''))
     = Inr \<lparr>Name = ''prod'', Namespace = ''team-a''\<rparr> \<and>
   Get (example_client (example_cluster '':'' ''QQ=='') ''team-a'')
     \<lparr>Name = ''prod'', Namespace = ''team-a''\<rparr> = Inr (example_cluster '':'' ''QQ=='') \<and>
   Run (example_externals [''nctl'']) (example_cmd ''prod'')
     (example_client (example_cluster '':'' ''QQ=='') ''team-a'')
     = (Some (Errorf ''invalid cluster API endpoint: %w''
                [Op_error (Foreign ''missing protocol scheme'')]),
        [Call_Get \<lparr>Name = ''prod'', Namespace = ''team-a''\<rparr>]) \<and>
   clusterName (cmd_Name (example_cmd ''prod''))
     (client_Namespace (example_client (example_cluster [] ''!!!'') ''team-a''))
     = Inr \<lparr>Name = ''prod'', Namespace = ''team-a''\<rparr> \<and>
   Get (example_client (example_cluster [] ''!!!'') ''team-a'')
     \<lparr>Name = ''prod'', Namespace = ''team-a''\<rparr> = Inr (example_cluster [] ''!!!'') \<and>
   APIEndpoint (AtProvider (Status (example_cluster [] ''!!!''))) = [] \<and>
   url_Parse (example_externals [''nctl'']) [] =
     Inr \<lparr>Scheme = [], Rest = [], RawFragment = []\<rparr> \<and>
   Run (example_externals [''nctl'']) (example_cmd ''prod'')
     (example_client (example_cluster [] ''!!!'') ''team-a'')
     = (Some (Errorf ''unable to decode API CA certificate: %w''
                [Op_error (Foreign ''illegal base64 data'')]),
        [Call_Get \<lparr>Name = ''prod'', Namespace = ''team-a''\<rparr>])"
proof -
  have name: "clusterName (cmd_Name (example_cmd ''prod''))
     (client_Namespace (example_client (example_cluster endpoint cacert) ''team-a''))
     = Inr \<lparr>Name = ''prod'', Namespace = ''team-a''\<rparr>" for endpoint cacert
    by (simp add: example_cmd_def example_client_def clusterName_prod)
  have cluster: "Get (example_client (example_cluster endpoint cacert) ''team-a'')
     \<lparr>Name = ''prod'', Namespace = ''team-a''\<rparr> = Inr (example_cluster endpoint cacert)"
    for endpoint cacert
    by (rule example_client_Get)
  have rejected: "url_Parse (example_externals [''nctl''])
     (APIEndpoint (AtProvider (Status (example_cluster '':'' ''QQ=='')))) =
     Inl (Foreign ''missing protocol scheme'')"
    by (simp add: example_externals_def example_cluster_def example_url_Parse_colon)
  have empty: "APIEndpoint (AtProvider (Status (example_cluster [] ''!!!''))) = []"
    by (simp add: example_cluster_def)
  have accepted: "url_Parse (example_externals [''nctl'']) [] =
     Inr \<lparr>Scheme = [], Rest = [], RawFragment = []\<rparr>"
    by (simp add: example_externals_def example_url_Parse_empty)
  have issuer: "url_Parse (example_externals [''nctl''])
     (OIDCIssuerURL (AtProvider (Status (example_cluster [] ''!!!'')))) =
     Inr \<lparr>Scheme = ''https'', Rest = ''//auth.example.org'', RawFragment = []\<rparr>"
    by (simp add: example_externals_def example_cluster_def example_url_Parse_auth)
  have ca: "base64_DecodeString (example_externals [''nctl''])
     (APICACert (AtProvider (Status (example_cluster [] ''!!!'')))) =
     Inl (Foreign ''illegal base64 data'')"
    by (simp add: example_externals_def example_cluster_def example_DecodeString_bad)
  from Run_endpoint_checked_by_url_Parse
    [OF name [of "'':''" "''QQ==''"] cluster [of "'':''" "''QQ==''"],
     of "example_externals [''nctl'']"]
  have "Run (example_externals [''nctl'']) (example_cmd ''prod'')
     (example_client (example_cluster '':'' ''QQ=='') ''team-a'')
     = (Some (Errorf ''invalid cluster API endpoint: %w''
                [Op_error (Foreign ''missing protocol scheme'')]),
        [Call_Get \<lparr>Name = ''prod'', Namespace = ''team-a''\<rparr>])"
    by (simp add: rejected Let_def)
  moreover
  from Run_endpoint_checked_by_url_Parse
    [OF name [of "[]" "''!!!''"] cluster [of "[]" "''!!!''"],
     of "example_externals [''nctl'']" "\<lparr>Scheme = [], Rest = [], RawFragment = []\<rparr>"]
  have "Run (example_externals [''nctl'']) (example_cmd ''prod'')
     (example_client (example_cluster [] ''!!!'') ''team-a'')
     = (Some (Errorf ''unable to decode API CA certificate: %w''
                [Op_error (Foreign ''illegal base64 data'')]),
        [Call_Get \<lparr>Name = ''prod'', Namespace = ''team-a''\<rparr>])"
    by (simp add: empty accepted issuer ca Let_def)
  ultimately show ?thesis
    using name [of "'':''" "''QQ==''"] cluster [of "'':''" "''QQ==''"]
      name [of "[]" "''!!!''"] cluster [of "[]" "''!!!''"] empty accepted
    by (intro conjI)
qed

text \<open>
  The claim as it stands fails at a cluster object with the empty endpoint:
  \<open>url.Parse("")\<close> is the zero \<open>URL\<close> without error, the other checks pass, and
  \<open>Run\<close> returns \<open>nil\<close> after \<open>newAPIConfig\<close> and \<open>login\<close> were invoked.
\<close>

theorem Run_empty_endpoint_logs_in:
  "APIEndpoint (AtProvider (Status (example_cluster [] ''QQ==''))) = [] \<and>
   Run (example_externals [''nctl'']) (example_cmd ''prod'')
     (example_client (example_cluster [] ''QQ=='') ''team-a'') =
   (None,
    [Call_Get \<lparr>Name = ''prod'', Namespace = ''team-a''\<rparr>,
     Call_newAPIConfig \<lparr>Scheme = [], Rest = [], RawFragment = []\<rparr>
       \<lparr>Scheme = ''https'', Rest = ''//auth.example.org'', RawFragment = []\<rparr>
       ''nctl'' ''nctl'' [overrideName ''prod/team-a'', setCACert ''A''],
     Call_login
       (\<lparr>Scheme = [], Rest = [], RawFragment = []\<rparr>,
        \<lparr>Scheme = ''https'', Rest = ''//auth.example.org'', RawFragment = []\<rparr>,
        ''nctl'', ''nctl'', [overrideName ''prod/team-a'', setCACert ''A''])
       ''/home/alice/.kube/config''
       [runExecPlugin False, switchCurrentContext]])"
  by (simp add: Run_def clusterName_prod example_cmd_def example_client_def example_cluster_def
      example_externals_def example_url_Parse_empty example_url_Parse_auth
      example_DecodeString_A example_newAPIConfig_def example_login_def ContextName_def Let_def)

text \<open>
  C3. For a name and a namespace without \<open>/\<close>, the namespace not empty, resolving
  \<open>name/namespace\<close> succeeds with exactly that name and namespace, for every ambient
  namespace.
\<close>

theorem clusterName_roundtrip:
  "CHR ''/'' \<notin> set name \<Longrightarrow> CHR ''/'' \<notin> set ns \<Longrightarrow> ns \<noteq> [] \<Longrightarrow>
   clusterName (name @ ''/'' @ ns) anyAmbient = Inr \<lparr>Name = name, Namespace = ns\<rparr>"
  by (simp add: clusterName_two_parts)

theorem clusterName_roundtrip_witness:
  "CHR ''/'' \<notin> set ''prod'' \<and> CHR ''/'' \<notin> set ''team-a'' \<and> ''team-a'' \<noteq> [] \<and>
   clusterName (''prod'' @ ''/'' @ ''team-a'') ''other'' =
     Inr \<lparr>Name = ''prod'', Namespace = ''team-a''\<rparr>"
  using clusterName_roundtrip [of "''prod''" "''team-a''" "''other''"] by simp

text \<open>
  C4. An argument without \<open>/\<close> and an empty ambient namespace: \<open>clusterName\<close> fails
  with \<open>namespace cannot be empty\<close> (the spec's \<open>InvalidIdentifier\<close>).
\<close>

theorem clusterName_empty_ambient:
  "CHR ''/'' \<notin> set name \<Longrightarrow>
   clusterName name [] = Inl (Errorf ''namespace cannot be empty'' [])"
  by (simp add: clusterName_not_two_parts count_list_0_iff)

theorem clusterName_empty_ambient_witness:
  "CHR ''/'' \<notin> set ''prod'' \<and>
   clusterName ''prod'' [] = Inl (Errorf ''namespace cannot be empty'' [])"
  using clusterName_empty_ambient [of "''prod''"] by simp

text \<open>
  C5. An argument without \<open>/\<close> and a non-empty ambient namespace: \<open>clusterName\<close>
  succeeds with the argument as name and the ambient namespace as namespace.
\<close>

theorem clusterName_ambient:
  "CHR ''/'' \<notin> set name \<Longrightarrow> ambientNamespace \<noteq> [] \<Longrightarrow>
   clusterName name ambientNamespace = Inr \<lparr>Name = name, Namespace = ambientNamespace\<rparr>"
  by (simp add: clusterName_not_two_parts count_list_0_iff)

theorem clusterName_ambient_witness:
  "CHR ''/'' \<notin> set ''prod'' \<and> ''team-a'' \<noteq> [] \<and>
   clusterName ''prod'' ''team-a'' = Inr \<lparr>Name = ''prod'', Namespace = ''team-a''\<rparr>"
  using clusterName_ambient [of "''prod''" "''team-a''"] by simp

text \<open>
  C6. The context name of a cluster object is its name, a \<open>/\<close>, and its namespace;
  nothing else of the object enters.
\<close>

theorem ContextName_eq:
  "ContextName cluster = meta_Name cluster @ ''/'' @ meta_Namespace cluster"
  by (simp add: ContextName_def)

text \<open>
  C7, as amended. For a cluster object that the lookup returned and whose
  \<open>status.apiCACert\<close> the base64 decoder rejects, \<open>Run\<close> fails having called
  nothing but the lookup: \<open>newAPIConfig\<close> and \<open>login\<close> are never invoked. The error
  is \<open>unable to decode API CA certificate\<close> (the spec's \<open>InvalidEncoding\<close>) when
  both URL fields parse; otherwise it is the error of the URL field that fails
  first: that of the API endpoint if it does not parse, else that of the issuer
  URL.
\<close>

theorem Run_undecodable_CA:
  assumes "clusterName (cmd_Name a) (client_Namespace client) = Inr name"
      and "Get client name = Inr cluster"
      and "base64_DecodeString ext (APICACert (AtProvider (Status cluster))) = Inl err"
  shows "Run ext a client =
     (Some
        (case url_Parse ext (APIEndpoint (AtProvider (Status cluster))) of
           Inl cause \<Rightarrow> Errorf ''invalid cluster API endpoint: %w'' [Op_error cause]
         | Inr apiEndpoint \<Rightarrow>
             (case url_Parse ext (OIDCIssuerURL (AtProvider (Status cluster))) of
                Inl cause \<Rightarrow> Errorf ''invalid cluster OIDC issuer url: %w'' [Op_error cause]
              | Inr issuerURL \<Rightarrow>
                  Errorf ''unable to decode API CA certificate: %w'' [Op_error err])),
      [Call_Get name])"
proof (cases "url_Parse ext (APIEndpoint (AtProvider (Status cluster)))")
  case (Inl cause)
  show ?thesis
    by (simp add: Run_endpoint_error [OF assms(1,2) Inl] Inl)
next
  case endpoint: (Inr apiEndpoint)
  show ?thesis
  proof (cases "url_Parse ext (OIDCIssuerURL (AtProvider (Status cluster)))")
    case (Inl cause)
    show ?thesis
      by (simp add: Run_issuer_error [OF assms(1,2) endpoint Inl] endpoint Inl)
  next
    case (Inr issuerURL)
    show ?thesis
      by (simp add: Run_decode_error [OF assms(1,2) endpoint Inr assms(3)] endpoint Inr)
  qed
qed

theorem Run_undecodable_CA_witness:
  "clusterName (cmd_Name (example_cmd ''prod''))
     (client_Namespace
        (example_client (example_cluster ''https://api.example.org'' ''!!!'') ''team-a''))
     = Inr \<lparr>Name = ''prod'', Namespace = ''team-a''\<rparr> \<and>
   Get (example_client (example_cluster ''https://api.example.org'' ''!!!'') ''team-a'')
     \<lparr>Name = ''prod'', Namespace = ''team-a''\<rparr>
     = Inr (example_cluster ''https://api.example.org'' ''!!!'') \<and>
   base64_DecodeString (example_externals [''nctl''])
     (APICACert (AtProvider (Status (example_cluster ''https://api.example.org'' ''!!!''))))
     = Inl (Foreign ''illegal base64 data'') \<and>
   url_Parse (example_externals [''nctl''])
     (APIEndpoint (AtProvider (Status (example_cluster ''https://api.example.org'' ''!!!''))))
     = Inr \<lparr>Scheme = ''https'', Rest = ''//api.example.org'', RawFragment = []\<rparr> \<and>
   url_Parse (example_externals [''nctl''])
     (OIDCIssuerURL (AtProvider (Status (example_cluster ''https://api.example.org'' ''!!!''))))
     = Inr \<lparr>Scheme = ''https'', Rest = ''//auth.example.org'', RawFragment = []\<rparr> \<and>
   Run (example_externals [''nctl'']) (example_cmd ''prod'')
     (example_client (example_cluster ''https://api.example.org'' ''!!!'') ''team-a'')
     = (Some (Errorf ''unable to decode API CA certificate: %w''
                [Op_error (Foreign ''illegal base64 data'')]),
        [Call_Get \<lparr>Name = ''prod'', Namespace = ''team-a''\<rparr>])"
proof -
  have name: "clusterName (cmd_Name (example_cmd ''prod''))
     (client_Namespace
        (example_client (example_cluster ''https://api.example.org'' ''!!!'') ''team-a''))
     = Inr \<lparr>Name = ''prod'', Namespace = ''team-a''\<rparr>"
    by (simp add: example_cmd_def example_client_def clusterName_prod)
  have cluster:
    "Get (example_client (example_cluster ''https://api.example.org'' ''!!!'') ''team-a'')
       \<lparr>Name = ''prod'', Namespace = ''team-a''\<rparr>
     = Inr (example_cluster ''https://api.example.org'' ''!!!'')"
    by (rule example_client_Get)
  have ca: "base64_DecodeString (example_externals [''nctl''])
     (APICACert (AtProvider (Status (example_cluster ''https://api.example.org'' ''!!!''))))
     = Inl (Foreign ''illegal base64 data'')"
    by (simp add: example_externals_def example_cluster_def example_DecodeString_bad)
  have endpoint: "url_Parse (example_externals [''nctl''])
     (APIEndpoint (AtProvider (Status (example_cluster ''https://api.example.org'' ''!!!''))))
     = Inr \<lparr>Scheme = ''https'', Rest = ''//api.example.org'', RawFragment = []\<rparr>"
    by (simp add: example_externals_def example_cluster_def example_url_Parse_api)
  have issuer: "url_Parse (example_externals [''nctl''])
     (OIDCIssuerURL (AtProvider (Status (example_cluster ''https://api.example.org'' ''!!!''))))
     = Inr \<lparr>Scheme = ''https'', Rest = ''//auth.example.org'', RawFragment = []\<rparr>"
    by (simp add: example_externals_def example_cluster_def example_url_Parse_auth)
  from Run_undecodable_CA [OF name cluster ca]
  have "Run (example_externals [''nctl'']) (example_cmd ''prod'')
     (example_client (example_cluster ''https://api.example.org'' ''!!!'') ''team-a'')
     = (Some (Errorf ''unable to decode API CA certificate: %w''
                [Op_error (Foreign ''illegal base64 data'')]),
        [Call_Get \<lparr>Name = ''prod'', Namespace = ''team-a''\<rparr>])"
    by (simp add: endpoint issuer)
  with name cluster ca endpoint issuer show ?thesis
    by (intro conjI)
qed

text \<open>
  The claim as it stands fails at a cluster object whose endpoint does not parse
  either: the error is the endpoint's, not the decoder's.
\<close>

theorem Run_undecodable_CA_after_bad_endpoint:
  "base64_DecodeString (example_externals [''nctl''])
     (APICACert (AtProvider (Status (example_cluster '':'' ''!!!''))))
     = Inl (Foreign ''illegal base64 data'') \<and>
   Run (example_externals [''nctl'']) (example_cmd ''prod'')
     (example_client (example_cluster '':'' ''!!!'') ''team-a'')
     = (Some (Errorf ''invalid cluster API endpoint: %w''
                [Op_error (Foreign ''missing protocol scheme'')]),
        [Call_Get \<lparr>Name = ''prod'', Namespace = ''team-a''\<rparr>])"
  by (simp add: Run_def clusterName_prod example_cmd_def example_client_def example_cluster_def
      example_externals_def example_url_Parse_colon example_DecodeString_bad)

text \<open>
  C8. The chain of kubeconfig files that \<open>LoadingRules\<close> returns, in the order of
  precedence: first the file that the environment variable \<open>KUBECONFIG\<close> names
  (each file of a \<open>:\<close>-separated list), else, when the variable is not set or
  empty, the per-user default \<open>.kube/config\<close> under \<open>$HOME\<close>; after it, exactly when
  \<open>HOME\<close> is not set, the path \<open>HomeDir/.kube/config\<close> of the looked-up user, as
  the last element. \<open>LoadingRules\<close> fails exactly when \<open>HOME\<close> is not set and the
  user lookup fails, with that failure as the wrapped cause.
\<close>

theorem LoadingRules_precedence:
  "((\<exists>err. LoadingRules h = Inl err) \<longleftrightarrow>
      os_LookupEnv h ''HOME'' = None \<and> (\<exists>cause. user_Current h = Inl cause)) \<and>
   (case LoadingRules h of
      Inl err \<Rightarrow>
        (\<exists>cause. user_Current h = Inl cause \<and>
           err = Errorf ''could not get current user: %w'' [Op_error cause])
    | Inr rules \<Rightarrow>
        Precedence rules =
          (if os_Getenv h ''KUBECONFIG'' \<noteq> []
           then deduplicate (filepath_SplitList (os_Getenv h ''KUBECONFIG''))
           else [filepath_Join h [os_Getenv h ''HOME'', ''.kube'', ''config'']]) @
          (case (os_LookupEnv h ''HOME'', user_Current h) of
             (None, Inr u) \<Rightarrow> [filepath_Join h [HomeDir u, ''.kube'', ''config'']]
           | _ \<Rightarrow> []) \<and>
        (\<forall>file. os_LookupEnv h ''KUBECONFIG'' = Some file \<longrightarrow> file \<noteq> [] \<longrightarrow>
           CHR '':'' \<notin> set file \<longrightarrow>
           Precedence rules =
             file #
             (case (os_LookupEnv h ''HOME'', user_Current h) of
                (None, Inr u) \<Rightarrow> [filepath_Join h [HomeDir u, ''.kube'', ''config'']]
              | _ \<Rightarrow> [])))"
proof (cases "os_LookupEnv h ''HOME''")
  case (Some home)
  then show ?thesis
    by (simp add: LoadingRules_home NewDefault_one_file) (simp add: NewDefault_Precedence)
next
  case None
  show ?thesis
  proof (cases "user_Current h")
    case (Inl cause)
    with None show ?thesis
      by (simp add: LoadingRules_no_user)
  next
    case (Inr u)
    with None show ?thesis
      by (simp add: LoadingRules_user NewDefault_one_file) (simp add: NewDefault_Precedence)
  qed
qed

theorem LoadingRules_precedence_witness:
  "LoadingRules (example_host (\<lambda>key. None) (Inr \<lparr>HomeDir = ''/home/alice''\<rparr>)) =
     Inr \<lparr>Precedence = [''.kube/config'', ''/home/alice/.kube/config'']\<rparr> \<and>
   os_LookupEnv (example_host (\<lambda>key. if key = ''KUBECONFIG'' then Some ''/tmp/kubeconfig'' else None)
       (Inr \<lparr>HomeDir = ''/home/alice''\<rparr>)) ''KUBECONFIG'' = Some ''/tmp/kubeconfig'' \<and>
   ''/tmp/kubeconfig'' \<noteq> [] \<and> CHR '':'' \<notin> set ''/tmp/kubeconfig'' \<and>
   LoadingRules (example_host (\<lambda>key. if key = ''KUBECONFIG'' then Some ''/tmp/kubeconfig'' else None)
       (Inr \<lparr>HomeDir = ''/home/alice''\<rparr>)) =
     Inr \<lparr>Precedence = [''/tmp/kubeconfig'', ''/home/alice/.kube/config'']\<rparr> \<and>
   LoadingRules (example_host (\<lambda>key. if key = ''HOME'' then Some ''/home/alice'' else None)
       (Inl (Foreign ''user: unknown userid 1000''))) =
     Inr \<lparr>Precedence = [''/home/alice/.kube/config'']\<rparr> \<and>
   LoadingRules (example_host (\<lambda>key. None) (Inl (Foreign ''user: unknown userid 1000''))) =
     Inl (Errorf ''could not get current user: %w''
            [Op_error (Foreign ''user: unknown userid 1000'')])"
  using
    LoadingRules_precedence [of "example_host (\<lambda>key. None) (Inr \<lparr>HomeDir = ''/home/alice''\<rparr>)"]
    LoadingRules_precedence [of "example_host
       (\<lambda>key. if key = ''KUBECONFIG'' then Some ''/tmp/kubeconfig'' else None)
       (Inr \<lparr>HomeDir = ''/home/alice''\<rparr>)"]
    LoadingRules_precedence [of "example_host
       (\<lambda>key. if key = ''HOME'' then Some ''/home/alice'' else None)
       (Inl (Foreign ''user: unknown userid 1000''))"]
    LoadingRules_precedence [of "example_host (\<lambda>key. None)
       (Inl (Foreign ''user: unknown userid 1000''))"]
  by (auto simp add: example_host_def os_Getenv_def split: sum.splits)

text \<open>
  C9, as amended. With empty \<open>os.Args\<close>, \<open>Run\<close> always fails, and it has called
  at most the lookup, once: the credential configuration is not constructed
  (\<open>newAPIConfig\<close>), the kubeconfig is not written (\<open>login\<close>), nothing is retried.
  The error is \<open>could not get command name from os.Args\<close> (the spec's
  \<open>SelfResolutionFailed\<close>) when name resolution, lookup, both URL fields and the
  CA certificate pass; otherwise \<open>Run\<close> returns the error of the first step that
  fails, in this order: name resolution (before any lookup), lookup, API endpoint,
  issuer URL, CA certificate.
\<close>

theorem Run_without_os_Args:
  assumes "os_Args ext = []"
  shows "Run ext a client =
     (case clusterName (cmd_Name a) (client_Namespace client) of
        Inl err \<Rightarrow> (Some err, [])
      | Inr name \<Rightarrow>
          (case Get client name of
             Inl err \<Rightarrow> (Some err, [Call_Get name])
           | Inr cluster \<Rightarrow>
               (Some
                  (case url_Parse ext (APIEndpoint (AtProvider (Status cluster))) of
                     Inl err \<Rightarrow> Errorf ''invalid cluster API endpoint: %w'' [Op_error err]
                   | Inr apiEndpoint \<Rightarrow>
                  (case url_Parse ext (OIDCIssuerURL (AtProvider (Status cluster))) of
                     Inl err \<Rightarrow> Errorf ''invalid cluster OIDC issuer url: %w'' [Op_error err]
                   | Inr issuerURL \<Rightarrow>
                  (case base64_DecodeString ext (APICACert (AtProvider (Status cluster))) of
                     Inl err \<Rightarrow> Errorf ''unable to decode API CA certificate: %w'' [Op_error err]
                   | Inr caCert \<Rightarrow> Errorf ''could not get command name from os.Args'' []))),
                [Call_Get name])))"
proof (cases "clusterName (cmd_Name a) (client_Namespace client)")
  case (Inl e)
  show ?thesis
    by (simp add: Run_name_error [OF Inl] Inl)
next
  case name: (Inr name)
  show ?thesis
  proof (cases "Get client name")
    case (Inl e)
    show ?thesis
      by (simp add: Run_lookup_error [OF name Inl] name Inl)
  next
    case cluster: (Inr cluster)
    show ?thesis
    proof (cases "url_Parse ext (APIEndpoint (AtProvider (Status cluster)))")
      case (Inl e)
      show ?thesis
        by (simp add: Run_endpoint_error [OF name cluster Inl] name cluster Inl)
    next
      case endpoint: (Inr apiEndpoint)
      show ?thesis
      proof (cases "url_Parse ext (OIDCIssuerURL (AtProvider (Status cluster)))")
        case (Inl e)
        show ?thesis
          by (simp add: Run_issuer_error [OF name cluster endpoint Inl] name cluster endpoint Inl)
      next
        case issuer: (Inr issuerURL)
        show ?thesis
        proof (cases "base64_DecodeString ext (APICACert (AtProvider (Status cluster)))")
          case (Inl e)
          show ?thesis
            by (simp add: Run_decode_error [OF name cluster endpoint issuer Inl]
                name cluster endpoint issuer Inl)
        next
          case (Inr caCert)
          show ?thesis
            by (simp add: Run_no_command [OF name cluster endpoint issuer Inr assms]
                name cluster endpoint issuer Inr)
        qed
      qed
    qed
  qed
qed

theorem Run_without_os_Args_witness:
  "os_Args (example_externals []) = [] \<and>
   clusterName (cmd_Name (example_cmd ''prod''))
     (client_Namespace
        (example_client (example_cluster ''https://api.example.org'' ''QQ=='') ''team-a''))
     = Inr \<lparr>Name = ''prod'', Namespace = ''team-a''\<rparr> \<and>
   Get (example_client (example_cluster ''https://api.example.org'' ''QQ=='') ''team-a'')
     \<lparr>Name = ''prod'', Namespace = ''team-a''\<rparr>
     = Inr (example_cluster ''https://api.example.org'' ''QQ=='') \<and>
   url_Parse (example_externals [])
     (APIEndpoint (AtProvider (Status (example_cluster ''https://api.example.org'' ''QQ==''))))
     = Inr \<lparr>Scheme = ''https'', Rest = ''//api.example.org'', RawFragment = []\<rparr> \<and>
   url_Parse (example_externals [])
     (OIDCIssuerURL (AtProvider (Status (example_cluster ''https://api.example.org'' ''QQ==''))))
     = Inr \<lparr>Scheme = ''https'', Rest = ''//auth.example.org'', RawFragment = []\<rparr> \<and>
   base64_DecodeString (example_externals [])
     (APICACert (AtProvider (Status (example_cluster ''https://api.example.org'' ''QQ==''))))
     = Inr ''A'' \<and>
   Run (example_externals []) (example_cmd ''prod'')
     (example_client (example_cluster ''https://api.example.org'' ''QQ=='') ''team-a'')
     = (Some (Errorf ''could not get command name from os.Args'' []),
        [Call_Get \<lparr>Name = ''prod'', Namespace = ''team-a''\<rparr>])"
proof -
  have args: "os_Args (example_externals []) = []"
    by (simp add: example_externals_def)
  have name: "clusterName (cmd_Name (example_cmd ''prod''))
     (client_Namespace
        (example_client (example_cluster ''https://api.example.org'' ''QQ=='') ''team-a''))
     = Inr \<lparr>Name = ''prod'', Namespace = ''team-a''\<rparr>"
    by (simp add: example_cmd_def example_client_def clusterName_prod)
  have cluster:
    "Get (example_client (example_cluster ''https://api.example.org'' ''QQ=='') ''team-a'')
       \<lparr>Name = ''prod'', Namespace = ''team-a''\<rparr>
     = Inr (example_cluster ''https://api.example.org'' ''QQ=='')"
    by (rule example_client_Get)
  have endpoint: "url_Parse (example_externals [])
     (APIEndpoint (AtProvider (Status (example_cluster ''https://api.example.org'' ''QQ==''))))
     = Inr \<lparr>Scheme = ''https'', Rest = ''//api.example.org'', RawFragment = []\<rparr>"
    by (simp add: example_externals_def example_cluster_def example_url_Parse_api)
  have issuer: "url_Parse (example_externals [])
     (OIDCIssuerURL (AtProvider (Status (example_cluster ''https://api.example.org'' ''QQ==''))))
     = Inr \<lparr>Scheme = ''https'', Rest = ''//auth.example.org'', RawFragment = []\<rparr>"
    by (simp add: example_externals_def example_cluster_def example_url_Parse_auth)
  have ca: "base64_DecodeString (example_externals [])
     (APICACert (AtProvider (Status (example_cluster ''https://api.example.org'' ''QQ==''))))
     = Inr ''A''"
    by (simp add: example_externals_def example_cluster_def example_DecodeString_A)
  from Run_without_os_Args [OF args, of "example_cmd ''prod''"
      "example_client (example_cluster ''https://api.example.org'' ''QQ=='') ''team-a''"]
  have "Run (example_externals []) (example_cmd ''prod'')
     (example_client (example_cluster ''https://api.example.org'' ''QQ=='') ''team-a'')
     = (Some (Errorf ''could not get command name from os.Args'' []),
        [Call_Get \<lparr>Name = ''prod'', Namespace = ''team-a''\<rparr>])"
    by (simp add: name cluster endpoint issuer ca)
  with args name cluster endpoint issuer ca show ?thesis
    by (intro conjI)
qed

text \<open>
  The claim as it stands fails when an earlier step fails: with empty \<open>os.Args\<close>
  and a cluster that the lookup does not find, the error is the lookup's.
\<close>

theorem Run_without_os_Args_lookup_fails:
  "os_Args (example_externals []) = [] \<and>
   Run (example_externals []) (example_cmd ''staging'')
     (example_client (example_cluster ''https://api.example.org'' ''QQ=='') ''team-a'')
     = (Some (Foreign ''not found''),
        [Call_Get \<lparr>Name = ''staging'', Namespace = ''team-a''\<rparr>])"
  by (simp add: Run_def clusterName_def strings_Split.simps example_cmd_def example_client_def
      example_cluster_def example_externals_def)

text \<open>
  C10, as amended. For a non-empty namespace without \<open>/\<close>, the argument \<open>/namespace\<close>
  (empty name part) is accepted: \<open>clusterName\<close> returns the empty name with that
  namespace, for every ambient namespace.
\<close>

theorem clusterName_leading_slash:
  "ns \<noteq> [] \<Longrightarrow> CHR ''/'' \<notin> set ns \<Longrightarrow>
   clusterName (''/'' @ ns) ambient = Inr \<lparr>Name = [], Namespace = ns\<rparr>"
  using clusterName_two_parts [of "[]" ns ambient] by simp

theorem clusterName_leading_slash_witness:
  "''team-a'' \<noteq> [] \<and> CHR ''/'' \<notin> set ''team-a'' \<and>
   clusterName (''/'' @ ''team-a'') ''other'' = Inr \<lparr>Name = [], Namespace = ''team-a''\<rparr>"
  using clusterName_leading_slash [of "''team-a''" "''other''"] by simp

text \<open>
  The claim as it stands fails for a namespace that holds a \<open>/\<close>: \<open>/a/b\<close> has three
  parts, so it is kept whole as the name and the ambient namespace is used.
\<close>

theorem clusterName_leading_slash_not_split:
  "''a/b'' \<noteq> [] \<and>
   clusterName (''/'' @ ''a/b'') ''x'' = Inr \<lparr>Name = ''/a/b'', Namespace = ''x''\<rparr> \<and>
   clusterName (''/'' @ ''a/b'') ''x'' \<noteq> Inr \<lparr>Name = [], Namespace = ''a/b''\<rparr>"
  by (simp add: clusterName_def strings_Split.simps)

end
